theory Spec2Isabelle
  imports Complex_Main
begin

section \<open>Single-run evaluators of \<open>pytensortools/evaluation/run_evaluator.py\<close>\<close>

subsection \<open>Data model\<close>

text \<open>
  The Python exceptions the two evaluators can raise. \<open>NameError\<close> carries the name that
  is read before it is bound; Python's \<open>UnboundLocalError\<close> is a subclass of \<open>NameError\<close>,
  and which of the two classes is raised for a name read inside a comprehension depends on
  the interpreter version, so both are the one constructor here.
\<close>

datatype error = IndexError | NameError string | AssertionError | TypeError | ValueError

text \<open>
  A factor matrix is a two-dimensional numeric array: \<open>ncols\<close> is \<open>fm.shape[1]\<close> (an
  array keeps its column count also when it has no rows) and \<open>rows\<close> are its rows.
  Entries are real numbers: rounding and NaN are outside this model.
\<close>

record factor_matrix =
  ncols :: nat
  rows :: "real list list"

text \<open>\<open>fm[:, p]\<close> for \<open>p\<close> drawn from \<open>range(R)\<close>: the column, or IndexError out of range.\<close>

definition column :: "factor_matrix \<Rightarrow> nat \<Rightarrow> error + real list" where
  "column fm p = (if p < ncols fm then Inr (map (\<lambda>r. r ! p) (rows fm)) else Inl IndexError)"

text \<open>
  The running minimum starts as \<open>np.inf\<close>; afterwards it holds a score returned by
  \<open>metrics._factor_match_score\<close>.
\<close>

datatype score = PosInf | Finite real

fun score_less :: "real \<Rightarrow> score \<Rightarrow> bool" where
  "score_less s PosInf = True"
| "score_less s (Finite m) = (s < m)"

text \<open>
  \<open>metrics._factor_match_score(factors_p1, factors_p2, nonnegative=False,
  weight_penalty=False)[0]\<close> belongs to the external package \<open>pytensor\<close>; the evaluator
  takes it as a parameter: a function of the two per-mode column lists.
\<close>

type_synonym factor_match_score = "real list list \<Rightarrow> real list list \<Rightarrow> real"

text \<open>The evaluator object: the fields \<open>__init__\<close> stores.\<close>

record WorstDegeneracy =
  modes :: "int list option"
  return_permutation :: bool

subsection \<open>\<open>WorstDegeneracy._evaluate\<close>\<close>

text \<open>
  Lines 69-70: the local name \<open>modes\<close> is bound only when \<open>self.modes is None\<close>; there is
  no \<open>else\<close> branch. \<open>None\<close> below stands for the local name being unbound.
\<close>

definition local_modes :: "int list option \<Rightarrow> nat \<Rightarrow> int list option" where
  "local_modes self_modes n =
     (case self_modes of None \<Rightarrow> Some (map int [0..<n]) | Some ms \<Rightarrow> None)"

text \<open>
  Lines 76-77: \<open>[fm[:, p] for mode, fm in enumerate(factor_matrices) if mode in modes]\<close>.
  Reading the unbound name \<open>modes\<close> raises at the first element.
\<close>

fun factors_p :: "int list option \<Rightarrow> nat \<Rightarrow> (nat \<times> factor_matrix) list \<Rightarrow> error + real list list" where
  "factors_p lm p [] = Inr []"
| "factors_p lm p ((mode, fm) # rest) =
     (case lm of
        None \<Rightarrow> Inl (NameError ''modes'')
      | Some ms \<Rightarrow>
          if int mode \<in> set ms then
            (case column fm p of
               Inl e \<Rightarrow> Inl e
             | Inr c \<Rightarrow> (case factors_p lm p rest of Inl e \<Rightarrow> Inl e | Inr cs \<Rightarrow> Inr (c # cs)))
          else factors_p lm p rest)"

text \<open>
  \<open>itertools.permutations(range(R), r=2)\<close>: the pairs of \<open>product(range(R), repeat=2)\<close>
  without repeated index, in lexicographic order.
\<close>

definition permutations2 :: "nat \<Rightarrow> (nat \<times> nat) list" where
  "permutations2 R = filter (\<lambda>(p1, p2). p1 \<noteq> p2) (List.product [0..<R] [0..<R])"

text \<open>The loop variables: \<open>worst\<close> is \<open>None\<close> while \<open>worst_p1\<close>, \<open>worst_p2\<close> are unbound.\<close>

record loop_state =
  min_score :: score
  worst :: "(nat \<times> nat) option"

text \<open>Lines 76-85, one iteration.\<close>

definition loop_body ::
  "factor_match_score \<Rightarrow> int list option \<Rightarrow> factor_matrix list \<Rightarrow> loop_state \<Rightarrow> nat \<Rightarrow> nat
     \<Rightarrow> error + loop_state" where
  "loop_body fms_score lm fms st p1 p2 =
     (case factors_p lm p1 (enumerate 0 fms) of
        Inl e \<Rightarrow> Inl e
      | Inr factors_p1 \<Rightarrow>
          (case factors_p lm p2 (enumerate 0 fms) of
             Inl e \<Rightarrow> Inl e
           | Inr factors_p2 \<Rightarrow>
               (let score = fms_score factors_p1 factors_p2
                in if score_less score (min_score st)
                   then Inr \<lparr>min_score = Finite score, worst = Some (p1, p2)\<rparr>
                   else Inr st)))"

fun loop ::
  "factor_match_score \<Rightarrow> int list option \<Rightarrow> factor_matrix list \<Rightarrow> loop_state
     \<Rightarrow> (nat \<times> nat) list \<Rightarrow> error + loop_state" where
  "loop fms_score lm fms st [] = Inr st"
| "loop fms_score lm fms st ((p1, p2) # ps) =
     (case loop_body fms_score lm fms st p1 p2 of
        Inl e \<Rightarrow> Inl e
      | Inr st' \<Rightarrow> loop fms_score lm fms st' ps)"

text \<open>
  The result dictionary: the score under the evaluator's name and, when asked for, the
  pair under \<open>'permutation:'\<close>.
\<close>

type_synonym degeneracy_result = "score \<times> (nat \<times> nat) option"

definition WorstDegeneracy_evaluate ::
  "factor_match_score \<Rightarrow> WorstDegeneracy \<Rightarrow> factor_matrix list \<Rightarrow> error + degeneracy_result" where
  "WorstDegeneracy_evaluate fms_score self fms =
     (let lm = local_modes (modes self) (length fms)
      in case fms of
           [] \<Rightarrow> Inl IndexError
         | fm0 # _ \<Rightarrow>
             (let R = ncols fm0
              in case loop fms_score lm fms \<lparr>min_score = PosInf, worst = None\<rparr> (permutations2 R) of
                   Inl e \<Rightarrow> Inl e
                 | Inr st \<Rightarrow>
                     if return_permutation self then
                       (case worst st of
                          None \<Rightarrow> Inl (NameError ''worst_p1'')
                        | Some w \<Rightarrow> Inr (min_score st, Some w))
                     else Inr (min_score st, None)))"

text \<open>
  \<open>BaseSingleRunEvaluator.__call__\<close>: one call on the evaluator object. The method assigns
  to no field of \<open>self\<close>, so the object comes back as it went in.
\<close>

definition WorstDegeneracy_call ::
  "factor_match_score \<Rightarrow> WorstDegeneracy \<Rightarrow> factor_matrix list
     \<Rightarrow> (error + degeneracy_result) \<times> WorstDegeneracy" where
  "WorstDegeneracy_call fms_score self fms = (WorstDegeneracy_evaluate fms_score self fms, self)"

text \<open>
  The pairs for which the loop reaches the call of \<open>metrics._factor_match_score\<close>: an
  iteration scores its pair when both comprehensions return, and an exception ends the loop.
\<close>

fun scored_pairs ::
  "int list option \<Rightarrow> factor_matrix list \<Rightarrow> (nat \<times> nat) list \<Rightarrow> (nat \<times> nat) list" where
  "scored_pairs lm fms [] = []"
| "scored_pairs lm fms ((p1, p2) # ps) =
     (case factors_p lm p1 (enumerate 0 fms) of
        Inl e \<Rightarrow> []
      | Inr factors_p1 \<Rightarrow>
          (case factors_p lm p2 (enumerate 0 fms) of
             Inl e \<Rightarrow> []
           | Inr factors_p2 \<Rightarrow> (p1, p2) # scored_pairs lm fms ps))"

definition WorstDegeneracy_scored :: "WorstDegeneracy \<Rightarrow> factor_matrix list \<Rightarrow> (nat \<times> nat) list" where
  "WorstDegeneracy_scored self fms =
     (case fms of
        [] \<Rightarrow> []
      | fm0 # _ \<Rightarrow> scored_pairs (local_modes (modes self) (length fms)) fms (permutations2 (ncols fm0)))"

subsection \<open>What the specification says about a decomposition\<close>

text \<open>A decomposition of rank \<open>R\<close>: at least one factor matrix, all with \<open>R\<close> columns.\<close>

definition decomposition_rank :: "factor_matrix list \<Rightarrow> nat \<Rightarrow> bool" where
  "decomposition_rank fms R = (fms \<noteq> [] \<and> list_all (\<lambda>fm. ncols fm = R) fms)"

text \<open>Component \<open>p\<close> across the modes: column \<open>p\<close> of every factor matrix, in mode order.\<close>

definition component_columns :: "factor_matrix list \<Rightarrow> nat \<Rightarrow> real list list" where
  "component_columns fms p = map (\<lambda>fm. map (\<lambda>r. r ! p) (rows fm)) fms"

definition pair_score :: "factor_match_score \<Rightarrow> factor_matrix list \<Rightarrow> nat \<times> nat \<Rightarrow> real" where
  "pair_score fms_score fms pq =
     fms_score (component_columns fms (fst pq)) (component_columns fms (snd pq))"

definition distinct_pairs :: "nat \<Rightarrow> (nat \<times> nat) set" where
  "distinct_pairs R = {(p1, p2). p1 < R \<and> p2 < R \<and> p1 \<noteq> p2}"

text \<open>
  Modelled from the spec: the external \<open>metrics._factor_match_score\<close> without
  nonnegativity correction and weight penalty, in the reading the known-input scenario
  fixes: the product over the modes of the cosine similarity of the two columns. Over the
  reals a zero column gives \<open>0\<close> where floating point gives NaN; no theorem below evaluates
  it on a zero column.
\<close>

definition dot :: "real list \<Rightarrow> real list \<Rightarrow> real" where
  "dot u v = sum_list (map2 (*) u v)"

definition cosine_similarity :: "real list \<Rightarrow> real list \<Rightarrow> real" where
  "cosine_similarity u v = dot u v / (sqrt (dot u u) * sqrt (dot v v))"

definition cosine_product_score :: factor_match_score where
  "cosine_product_score us vs = prod_list (map2 cosine_similarity us vs)"

subsection \<open>\<open>PValue._evaluate\<close>\<close>

text \<open>
  \<open>factor_matrices[self.mode]\<close>: indexing a Python sequence by an integer, where a
  negative index counts from the end and an index outside both ranges raises IndexError.
\<close>

definition sequence_item :: "'a list \<Rightarrow> int \<Rightarrow> error + 'a" where
  "sequence_item xs i =
     (if 0 \<le> i \<and> i < int (length xs) then Inr (xs ! nat i)
      else if - int (length xs) \<le> i \<and> i < 0 then Inr (xs ! nat (int (length xs) + i))
      else Inl IndexError)"

text \<open>
  \<open>data_reader.classes.squeeze()\<close> on a label vector (shape \<open>(n,)\<close>, \<open>(1, n)\<close> or
  \<open>(n, 1)\<close>), given by its entries: every axis of length one is dropped, so a vector
  with a single entry becomes a zero-dimensional array, which \<open>set(classes)\<close> cannot
  iterate (TypeError).
\<close>

datatype 'c squeezed = Scalar 'c | Vector "'c list"

definition squeeze :: "'c list \<Rightarrow> 'c squeezed" where
  "squeeze cs = (case cs of [c] \<Rightarrow> Scalar c | _ \<Rightarrow> Vector cs)"

fun iterate :: "'c squeezed \<Rightarrow> error + 'c list" where
  "iterate (Scalar c) = Inl TypeError"
| "iterate (Vector cs) = Inr cs"

text \<open>\<open>factors[indices[k]]\<close>: the rows at a list of row numbers, IndexError out of range.\<close>

definition take_rows :: "factor_matrix \<Rightarrow> nat list \<Rightarrow> error + real list list" where
  "take_rows fm idx =
     (if list_all (\<lambda>i. i < length (rows fm)) idx then Inr (map (\<lambda>i. rows fm ! i) idx)
      else Inl IndexError)"

text \<open>
  A p-value as \<open>scipy\<close> returns it: a number, or NaN (for instance when a class group has
  a single row, or a component is constant within both groups).
\<close>

datatype pvalue = NaN | PVal real

text \<open>\<open>x < y\<close> on floating-point values: false as soon as one side is NaN.\<close>

fun pvalue_less :: "pvalue \<Rightarrow> pvalue \<Rightarrow> bool" where
  "pvalue_less (PVal a) (PVal b) = (a < b)"
| "pvalue_less x y = False"

text \<open>
  Python's \<open>min\<close> of a tuple: ValueError when it is empty; otherwise it starts from the
  first item and replaces the current one by each later item that compares less than it.
  With a NaN among the items the result depends on their order.
\<close>

definition py_min :: "pvalue list \<Rightarrow> error + pvalue" where
  "py_min ps =
     (case ps of
        [] \<Rightarrow> Inl ValueError
      | p # rest \<Rightarrow> Inr (fold (\<lambda>x best. if pvalue_less x best then x else best) rest p))"

text \<open>
  \<open>ttest_ind(a, b, equal_var=False).pvalue\<close> belongs to the external package \<open>scipy\<close>:
  a parameter that maps the two groups of rows to one p-value per column. The order in
  which \<open>set(classes)\<close> lists the distinct labels is not fixed by Python either; it is the
  parameter \<open>set_order\<close>.
\<close>

type_synonym ttest_ind = "real list list \<Rightarrow> real list list \<Rightarrow> pvalue list"

definition PValue_evaluate ::
  "ttest_ind \<Rightarrow> ('c list \<Rightarrow> 'c list) \<Rightarrow> int \<Rightarrow> factor_matrix list \<Rightarrow> 'c list \<Rightarrow> error + pvalue" where
  "PValue_evaluate ttest set_order mode fms data_classes =
     (case sequence_item fms mode of
        Inl e \<Rightarrow> Inl e
      | Inr factors \<Rightarrow>
          (case iterate (squeeze data_classes) of
             Inl e \<Rightarrow> Inl e
           | Inr classes \<Rightarrow>
               if length (remdups classes) \<noteq> 2 then Inl AssertionError
               else
                 (let indices = map (\<lambda>cls. filter (\<lambda>i. classes ! i = cls) [0..<length classes])
                                    (set_order classes)
                  in case sequence_item indices 0 of
                       Inl e \<Rightarrow> Inl e
                     | Inr indices0 \<Rightarrow>
                         (case take_rows factors indices0 of
                            Inl e \<Rightarrow> Inl e
                          | Inr group0 \<Rightarrow>
                              (case sequence_item indices 1 of
                                 Inl e \<Rightarrow> Inl e
                               | Inr indices1 \<Rightarrow>
                                   (case take_rows factors indices1 of
                                      Inl e \<Rightarrow> Inl e
                                    | Inr group1 \<Rightarrow> py_min (ttest group0 group1)))))))"

text \<open>The rows of the selected factor matrix whose class label is \<open>c\<close>.\<close>

definition class_group :: "factor_matrix \<Rightarrow> 'c list \<Rightarrow> 'c \<Rightarrow> real list list" where
  "class_group factors cs c = map (\<lambda>i. rows factors ! i) (filter (\<lambda>i. cs ! i = c) [0..<length cs])"

subsection \<open>Auxiliary notions\<close>

text \<open>Every mode index of the decomposition is a member of the mode list.\<close>

definition covers :: "int list \<Rightarrow> factor_matrix list \<Rightarrow> bool" where
  "covers ms fms = (\<forall>i<length fms. int i \<in> set ms)"

section \<open>Properties\<close>

subsection \<open>The column selection\<close>

lemma factors_p_all_modes:
  "(\<forall>i<length fms. int (k + i) \<in> set ms) \<Longrightarrow> list_all (\<lambda>fm. p < ncols fm) fms \<Longrightarrow>
   factors_p (Some ms) p (enumerate k fms) = Inr (component_columns fms p)"
proof (induction fms arbitrary: k)
  case Nil
  then show ?case by (simp add: component_columns_def)
next
  case (Cons fm fms)
  have here: "int k \<in> set ms" using Cons.prems(1) by force
  have rest: "\<forall>i<length fms. int (Suc k + i) \<in> set ms"
  proof (intro allI impI)
    fix i assume "i < length fms"
    then have "Suc i < length (fm # fms)" by simp
    then have "int (k + Suc i) \<in> set ms" using Cons.prems(1) by blast
    then show "int (Suc k + i) \<in> set ms" by simp
  qed
  have "factors_p (Some ms) p (enumerate (Suc k) fms) = Inr (component_columns fms p)"
    using Cons.IH [OF rest] Cons.prems(2) by simp
  then show ?case using here Cons.prems(2)
    by (simp add: column_def component_columns_def)
qed

lemma factors_p_error:
  "factors_p (Some ms) p xs = Inl e \<Longrightarrow> e = IndexError"
  by (induction xs) (auto simp: column_def split: if_splits sum.splits)

lemma factors_p_unbound:
  "xs \<noteq> [] \<Longrightarrow> factors_p None p xs = Inl (NameError ''modes'')"
  by (cases xs) auto

lemma factors_p_short_matrix:
  "(\<forall>i<length fms. int (k + i) \<in> set ms) \<Longrightarrow> \<not> list_all (\<lambda>fm. p < ncols fm) fms \<Longrightarrow>
   \<exists>e. factors_p (Some ms) p (enumerate k fms) = Inl e"
proof (induction fms arbitrary: k)
  case Nil
  then show ?case by simp
next
  case (Cons fm fms)
  have here: "int k \<in> set ms" using Cons.prems(1) by force
  have rest: "\<forall>i<length fms. int (Suc k + i) \<in> set ms"
  proof (intro allI impI)
    fix i assume "i < length fms"
    then have "Suc i < length (fm # fms)" by simp
    then have "int (k + Suc i) \<in> set ms" using Cons.prems(1) by blast
    then show "int (Suc k + i) \<in> set ms" by simp
  qed
  show ?case
  proof (cases "p < ncols fm")
    case True
    then have "\<not> list_all (\<lambda>fm. p < ncols fm) fms" using Cons.prems(2) by simp
    then obtain e where "factors_p (Some ms) p (enumerate (Suc k) fms) = Inl e"
      using Cons.IH [OF rest] by blast
    then show ?thesis using here True by (simp add: column_def)
  next
    case False
    then show ?thesis using here by (simp add: column_def)
  qed
qed

lemma factors_p_same_members:
  "(\<forall>i<length fms. int (k + i) \<in> set ms \<longleftrightarrow> int (k + i) \<in> set ms') \<Longrightarrow>
   factors_p (Some ms) p (enumerate k fms) = factors_p (Some ms') p (enumerate k fms)"
proof (induction fms arbitrary: k)
  case Nil
  then show ?case by simp
next
  case (Cons fm fms)
  have here: "int k \<in> set ms \<longleftrightarrow> int k \<in> set ms'" using Cons.prems by force
  have rest: "\<forall>i<length fms. int (Suc k + i) \<in> set ms \<longleftrightarrow> int (Suc k + i) \<in> set ms'"
  proof (intro allI impI)
    fix i assume "i < length fms"
    then have "Suc i < length (fm # fms)" by simp
    then have "int (k + Suc i) \<in> set ms \<longleftrightarrow> int (k + Suc i) \<in> set ms'"
      using Cons.prems by blast
    then show "int (Suc k + i) \<in> set ms \<longleftrightarrow> int (Suc k + i) \<in> set ms'" by simp
  qed
  show ?case using here Cons.IH [OF rest] by (simp split: sum.splits)
qed

lemma factors_p_mode_order:
  "set ms = set ms' \<Longrightarrow>
   factors_p (Some ms) p (enumerate 0 fms) = factors_p (Some ms') p (enumerate 0 fms)"
  by (rule factors_p_same_members) simp

subsection \<open>The pairs of the loop\<close>

lemma set_permutations2: "set (permutations2 R) = distinct_pairs R"
  by (auto simp: permutations2_def distinct_pairs_def)

lemma distinct_permutations2: "distinct (permutations2 R)"
  by (simp add: permutations2_def distinct_product)

lemma length_filter_neq: "p < R \<Longrightarrow> length (filter (\<lambda>q. p \<noteq> q) [0..<R]) = R - 1"
proof -
  assume "p < R"
  have "length (filter (\<lambda>q. p \<noteq> q) [0..<R]) = card ({q. p \<noteq> q} \<inter> set [0..<R])"
    by (rule distinct_length_filter) simp
  also have "{q. p \<noteq> q} \<inter> set [0..<R] = {0..<R} - {p}" by auto
  also have "card ({0..<R} - {p}) = R - 1" using \<open>p < R\<close> by simp
  finally show ?thesis .
qed

lemma length_permutations2: "length (permutations2 R) = R * (R - 1)"
proof -
  have "permutations2 R = concat (map (\<lambda>p. map (Pair p) (filter (\<lambda>q. p \<noteq> q) [0..<R])) [0..<R])"
    unfolding permutations2_def List.product_concat_map
    by (simp add: filter_concat filter_map comp_def)
  then have "length (permutations2 R) = sum_list (map (\<lambda>p. length (filter (\<lambda>q. p \<noteq> q) [0..<R])) [0..<R])"
    by (simp add: length_concat comp_def)
  also have "\<dots> = sum_list (map (\<lambda>p. R - 1) [0..<R])"
    by (rule arg_cong [where f = sum_list], rule map_cong) (auto simp: length_filter_neq)
  also have "\<dots> = R * (R - 1)" by (simp add: sum_list_triv)
  finally show ?thesis .
qed

lemma permutations2_nonempty: "2 \<le> R \<Longrightarrow> permutations2 R \<noteq> []"
proof
  assume "2 \<le> R" and "permutations2 R = []"
  then have "R * (R - 1) = 0" using length_permutations2 [of R] by simp
  then show False using \<open>2 \<le> R\<close> by simp
qed

lemma permutations2_bounds:
  "list_all (\<lambda>fm. R \<le> ncols fm) fms \<Longrightarrow>
   \<forall>pq\<in>set (permutations2 R). list_all (\<lambda>fm. fst pq < ncols fm \<and> snd pq < ncols fm) fms"
  by (auto simp: set_permutations2 distinct_pairs_def list_all_iff)

lemma permutations2_1: "permutations2 (Suc 0) = []" by code_simp

lemma permutations2_2: "permutations2 2 = [(0, 1), (1, 0)]" by code_simp

lemma permutations2_3: "permutations2 3 = [(0, 1), (0, 2), (1, 0), (1, 2), (2, 0), (2, 1)]" by code_simp

lemma permutations2_4:
  "permutations2 4 = [(0, 1), (0, 2), (0, 3), (1, 0), (1, 2), (1, 3),
                      (2, 0), (2, 1), (2, 3), (3, 0), (3, 1), (3, 2)]"
  by code_simp

subsection \<open>The loop\<close>

lemma covers_range: "covers (map int [0..<length fms]) fms"
  by (simp add: covers_def)

lemma local_modes_default: "local_modes None n = Some (map int [0..<n])"
  by (simp add: local_modes_def)

lemma local_modes_explicit: "local_modes (Some ms) n = None"
  by (simp add: local_modes_def)

lemma loop_body_all_modes:
  assumes "covers ms fms"
    and "list_all (\<lambda>fm. p1 < ncols fm) fms" and "list_all (\<lambda>fm. p2 < ncols fm) fms"
  shows "loop_body sc (Some ms) fms st p1 p2 =
         Inr (if pair_score sc fms (p1, p2) < (case min_score st of PosInf \<Rightarrow> pair_score sc fms (p1, p2) + 1 | Finite m \<Rightarrow> m)
              then \<lparr>min_score = Finite (pair_score sc fms (p1, p2)), worst = Some (p1, p2)\<rparr>
              else st)"
proof -
  have c: "\<forall>i<length fms. int (0 + i) \<in> set ms" using assms(1) by (simp add: covers_def)
  have f1: "factors_p (Some ms) p1 (enumerate 0 fms) = Inr (component_columns fms p1)"
    by (rule factors_p_all_modes [OF c assms(2)])
  have f2: "factors_p (Some ms) p2 (enumerate 0 fms) = Inr (component_columns fms p2)"
    by (rule factors_p_all_modes [OF c assms(3)])
  show ?thesis
    by (cases "min_score st") (simp_all add: loop_body_def f1 f2 pair_score_def Let_def)
qed

lemma loop_from_finite:
  assumes "covers ms fms"
    and "\<forall>pq\<in>set ps. list_all (\<lambda>fm. fst pq < ncols fm \<and> snd pq < ncols fm) fms"
    and "min_score st = Finite m" and "worst st = Some w" and "pair_score sc fms w = m"
  shows "\<exists>w'. loop sc (Some ms) fms st ps =
               Inr \<lparr>min_score = Finite (fold min (map (pair_score sc fms) ps) m), worst = Some w'\<rparr>
             \<and> w' \<in> insert w (set ps)
             \<and> pair_score sc fms w' = fold min (map (pair_score sc fms) ps) m"
  using assms(2-)
proof (induction ps arbitrary: st m w)
  case Nil
  then show ?case by (cases st) simp
next
  case (Cons pq ps)
  obtain p1 p2 where pq: "pq = (p1, p2)" by (cases pq)
  have b1: "list_all (\<lambda>fm. p1 < ncols fm) fms" and b2: "list_all (\<lambda>fm. p2 < ncols fm) fms"
    using Cons.prems(1) pq by (auto simp: list_all_iff)
  have rest: "\<forall>pq\<in>set ps. list_all (\<lambda>fm. fst pq < ncols fm \<and> snd pq < ncols fm) fms"
    using Cons.prems(1) by simp
  let ?g = "pair_score sc fms"
  show ?case
  proof (cases "?g pq < m")
    case True
    define st' where "st' = \<lparr>min_score = Finite (?g pq), worst = Some pq\<rparr>"
    have body: "loop_body sc (Some ms) fms st p1 p2 = Inr st'"
      using True Cons.prems(2) pq
      by (simp add: loop_body_all_modes [OF assms(1) b1 b2] st'_def)
    have "\<exists>w'. loop sc (Some ms) fms st' ps =
               Inr \<lparr>min_score = Finite (fold min (map ?g ps) (?g pq)), worst = Some w'\<rparr>
             \<and> w' \<in> insert pq (set ps) \<and> ?g w' = fold min (map ?g ps) (?g pq)"
      by (rule Cons.IH [OF rest]) (simp_all add: st'_def)
    moreover have "min (?g pq) m = ?g pq" using True by simp
    ultimately show ?thesis using body pq by auto
  next
    case False
    have body: "loop_body sc (Some ms) fms st p1 p2 = Inr st"
      using False Cons.prems(2) pq
      by (simp add: loop_body_all_modes [OF assms(1) b1 b2])
    have "\<exists>w'. loop sc (Some ms) fms st ps =
               Inr \<lparr>min_score = Finite (fold min (map ?g ps) m), worst = Some w'\<rparr>
             \<and> w' \<in> insert w (set ps) \<and> ?g w' = fold min (map ?g ps) m"
      by (rule Cons.IH [OF rest Cons.prems(2,3,4)])
    moreover have "min (?g pq) m = m" using False by simp
    ultimately show ?thesis using body pq by auto
  qed
qed

lemma loop_from_inf:
  assumes "covers ms fms"
    and "\<forall>pq\<in>set ps. list_all (\<lambda>fm. fst pq < ncols fm \<and> snd pq < ncols fm) fms"
    and "ps \<noteq> []"
  shows "\<exists>w. loop sc (Some ms) fms \<lparr>min_score = PosInf, worst = None\<rparr> ps =
               Inr \<lparr>min_score = Finite (Min (pair_score sc fms ` set ps)), worst = Some w\<rparr>
             \<and> w \<in> set ps
             \<and> pair_score sc fms w = Min (pair_score sc fms ` set ps)"
proof -
  let ?g = "pair_score sc fms"
  obtain pq qs where ps: "ps = pq # qs" using assms(3) by (cases ps) auto
  obtain p1 p2 where pq: "pq = (p1, p2)" by (cases pq)
  have b1: "list_all (\<lambda>fm. p1 < ncols fm) fms" and b2: "list_all (\<lambda>fm. p2 < ncols fm) fms"
    using assms(2) ps pq by (auto simp: list_all_iff)
  have rest: "\<forall>pq\<in>set qs. list_all (\<lambda>fm. fst pq < ncols fm \<and> snd pq < ncols fm) fms"
    using assms(2) ps by simp
  define st' where "st' = \<lparr>min_score = Finite (?g pq), worst = Some pq\<rparr>"
  have body: "loop_body sc (Some ms) fms \<lparr>min_score = PosInf, worst = None\<rparr> p1 p2 = Inr st'"
    using pq by (simp add: loop_body_all_modes [OF assms(1) b1 b2] st'_def)
  have fin: "\<exists>w'. loop sc (Some ms) fms st' qs =
               Inr \<lparr>min_score = Finite (fold min (map ?g qs) (?g pq)), worst = Some w'\<rparr>
             \<and> w' \<in> insert pq (set qs) \<and> ?g w' = fold min (map ?g qs) (?g pq)"
    by (rule loop_from_finite [OF assms(1) rest]) (simp_all add: st'_def)
  have "Min (?g ` set ps) = Min (set (?g pq # map ?g qs))" using ps by simp
  also have "\<dots> = fold min (map ?g qs) (?g pq)" by (rule Min.set_eq_fold)
  finally have "Min (?g ` set ps) = fold min (map ?g qs) (?g pq)" .
  then show ?thesis using fin body ps pq by auto
qed

lemma loop_body_error_kind:
  "loop_body sc (Some ms) fms st p1 p2 = Inl e \<Longrightarrow> e = IndexError"
  by (auto simp: loop_body_def Let_def split: sum.splits if_splits dest: factors_p_error)

lemma loop_error_kind:
  "loop sc (Some ms) fms st ps = Inl e \<Longrightarrow> e = IndexError"
proof (induction ps arbitrary: st)
  case Nil
  then show ?case by simp
next
  case (Cons pq ps)
  obtain p1 p2 where pq: "pq = (p1, p2)" by (cases pq)
  show ?case using Cons pq
    by (auto split: sum.splits dest: loop_body_error_kind)
qed

lemma loop_stops_at_failure:
  "pq \<in> set ps \<Longrightarrow>
   (\<exists>e. factors_p lm (fst pq) (enumerate 0 fms) = Inl e)
     \<or> (\<exists>e. factors_p lm (snd pq) (enumerate 0 fms) = Inl e) \<Longrightarrow>
   \<exists>e. loop sc lm fms st ps = Inl e"
proof (induction ps arbitrary: st)
  case Nil
  then show ?case by simp
next
  case (Cons x ps)
  obtain p1 p2 where x: "x = (p1, p2)" by (cases x)
  show ?case
  proof (cases "loop_body sc lm fms st p1 p2")
    case (Inl e)
    then show ?thesis using x by simp
  next
    case (Inr st1)
    then have "pq \<noteq> x"
      using Cons.prems(2) x by (auto simp: loop_body_def Let_def split: sum.splits)
    then have "pq \<in> set ps" using Cons.prems(1) by simp
    then obtain e where "loop sc lm fms st1 ps = Inl e"
      using Cons.IH Cons.prems(2) by blast
    then show ?thesis using Inr x by simp
  qed
qed

lemma scored_pairs_all:
  assumes "covers ms fms"
    and "\<forall>pq\<in>set ps. list_all (\<lambda>fm. fst pq < ncols fm \<and> snd pq < ncols fm) fms"
  shows "scored_pairs (Some ms) fms ps = ps"
  using assms(2)
proof (induction ps)
  case Nil
  then show ?case by simp
next
  case (Cons pq ps)
  obtain p1 p2 where pq: "pq = (p1, p2)" by (cases pq)
  have c: "\<forall>i<length fms. int (0 + i) \<in> set ms" using assms(1) by (simp add: covers_def)
  have b1: "list_all (\<lambda>fm. p1 < ncols fm) fms" and b2: "list_all (\<lambda>fm. p2 < ncols fm) fms"
    using Cons.prems pq by (auto simp: list_all_iff)
  show ?case using Cons pq
    by (simp add: factors_p_all_modes [OF c b1] factors_p_all_modes [OF c b2])
qed

lemma scored_pairs_prefix: "\<exists>rest. ps = scored_pairs lm fms ps @ rest"
  by (induction ps) (auto split: sum.splits)

lemma loop_returns_iff_all_scored:
  "(\<exists>st'. loop sc lm fms st ps = Inr st') \<longleftrightarrow> scored_pairs lm fms ps = ps"
proof (induction ps arbitrary: st)
  case Nil
  then show ?case by simp
next
  case (Cons pq ps)
  obtain p1 p2 where pq: "pq = (p1, p2)" by (cases pq)
  show ?case
  proof (cases "loop_body sc lm fms st p1 p2")
    case (Inl e)
    then have "scored_pairs lm fms ((p1, p2) # ps) = []"
      by (auto simp: loop_body_def Let_def split: sum.splits if_splits)
    then show ?thesis using Inl pq by simp
  next
    case (Inr st1)
    then have "scored_pairs lm fms ((p1, p2) # ps) = (p1, p2) # scored_pairs lm fms ps"
      by (auto simp: loop_body_def Let_def split: sum.splits if_splits)
    then show ?thesis using Inr pq Cons.IH [of st1] by simp
  qed
qed

lemma no_self_pair_scored: "(p, p) \<notin> set (WorstDegeneracy_scored self fms)"
proof (cases fms)
  case Nil
  then show ?thesis by (simp add: WorstDegeneracy_scored_def)
next
  case (Cons fm0 rest)
  obtain tl where "permutations2 (ncols fm0) =
      scored_pairs (local_modes (modes self) (length fms)) fms (permutations2 (ncols fm0)) @ tl"
    using scored_pairs_prefix by blast
  then have "set (WorstDegeneracy_scored self fms) \<subseteq> set (permutations2 (ncols fm0))"
    unfolding WorstDegeneracy_scored_def Cons
    by (metis list.simps(5) set_append sup_ge1)
  then show ?thesis by (auto simp: set_permutations2 distinct_pairs_def)
qed

lemma loop_same_scores:
  assumes "\<forall>pq\<in>set ps. \<forall>f1 f2.
      factors_p lm (fst pq) (enumerate 0 fms) = Inr f1 \<and>
      factors_p lm (snd pq) (enumerate 0 fms) = Inr f2 \<longrightarrow> sc f1 f2 = sc' f1 f2"
  shows "loop sc lm fms st ps = loop sc' lm fms st ps"
  using assms
proof (induction ps arbitrary: st)
  case Nil
  then show ?case by simp
next
  case (Cons pq ps)
  obtain p1 p2 where pq: "pq = (p1, p2)" by (cases pq)
  have body: "loop_body sc lm fms st p1 p2 = loop_body sc' lm fms st p1 p2"
    using Cons.prems pq by (auto simp: loop_body_def Let_def split: sum.splits)
  have "loop sc lm fms st' ps = loop sc' lm fms st' ps" for st'
    using Cons.IH Cons.prems by simp
  then show ?case using body pq by (simp split: sum.splits)
qed

lemma default_modes_score_all_pairs:
  assumes "decomposition_rank fms R" and "modes self = None"
  shows "set (WorstDegeneracy_scored self fms) = distinct_pairs R
       \<and> distinct (WorstDegeneracy_scored self fms)
       \<and> length (WorstDegeneracy_scored self fms) = R * (R - 1)
       \<and> (\<forall>p. (p, p) \<notin> set (WorstDegeneracy_scored self fms))"
proof -
  obtain fm0 rest where fms: "fms = fm0 # rest"
    using assms(1) by (cases fms) (auto simp: decomposition_rank_def)
  have R: "ncols fm0 = R" using assms(1) fms by (simp add: decomposition_rank_def)
  have "list_all (\<lambda>fm. R \<le> ncols fm) fms"
    using assms(1) by (auto simp: decomposition_rank_def list_all_iff)
  then have bounds: "\<forall>pq\<in>set (permutations2 R).
      list_all (\<lambda>fm. fst pq < ncols fm \<and> snd pq < ncols fm) fms"
    by (rule permutations2_bounds)
  have "scored_pairs (Some (map int [0..<length fms])) fms (permutations2 R) = permutations2 R"
    by (rule scored_pairs_all [OF covers_range bounds])
  then have eq: "WorstDegeneracy_scored self fms = permutations2 R"
    unfolding WorstDegeneracy_scored_def fms
    by (simp add: assms(2) local_modes_default R del: upt_Suc)
  show ?thesis
    unfolding eq
    by (simp add: set_permutations2 distinct_permutations2 length_permutations2 distinct_pairs_def)
qed

lemma explicit_modes_unbound:
  assumes "modes self = Some ms" and "fms = fm0 # rest" and "2 \<le> ncols fm0"
  shows "WorstDegeneracy_evaluate sc self fms = Inl (NameError ''modes'')"
proof -
  obtain pq ps where pairs: "permutations2 (ncols fm0) = pq # ps"
    using permutations2_nonempty [OF assms(3)] by (cases "permutations2 (ncols fm0)") auto
  obtain p1 p2 where pq: "pq = (p1, p2)" by (cases pq)
  have "factors_p None p1 (enumerate 0 (fm0 # rest)) = Inl (NameError ''modes'')"
    by (rule factors_p_unbound) simp
  then have "loop_body sc None (fm0 # rest) st p1 p2 = Inl (NameError ''modes'')" for st
    by (simp add: loop_body_def)
  then have "loop sc None (fm0 # rest) st (permutations2 (ncols fm0)) = Inl (NameError ''modes'')" for st
    by (simp add: pairs pq)
  then show ?thesis
    by (simp add: WorstDegeneracy_evaluate_def assms(1,2) local_modes_explicit)
qed

subsection \<open>The cosine similarity on the columns of the examples\<close>

lemma cosine_orthogonal: "cosine_similarity [1, 0] [0, 1] = 0"
  by (simp add: cosine_similarity_def dot_def)

lemma cosine_identical: "cosine_similarity [1, 1] [1, 1] = 1"
  by (simp add: cosine_similarity_def dot_def)

lemma cosine_unit: "cosine_similarity [1] [1] = 1"
  by (simp add: cosine_similarity_def dot_def)

subsection \<open>The minimum of the p-values\<close>

lemma fold_pvalue_less:
  "fold (\<lambda>x best. if pvalue_less x best then x else best) (map PVal rs) (PVal r) =
   PVal (fold min rs r)"
  by (induction rs arbitrary: r) (auto simp: min_def)

lemma py_min_numbers: "rs \<noteq> [] \<Longrightarrow> py_min (map PVal rs) = Inr (PVal (Min (set rs)))"
  by (cases rs) (simp_all add: py_min_def fold_pvalue_less Min.set_eq_fold [symmetric])

lemma py_min_nan_order:
  "py_min [NaN, PVal 1] = Inr NaN \<and> py_min [PVal 1, NaN] = Inr (PVal 1)"
  by (simp add: py_min_def)

lemma sequence_item_0: "sequence_item (x # xs) 0 = Inr x"
  by (simp add: sequence_item_def)

lemma sequence_item_1: "sequence_item (x # y # xs) 1 = Inr y"
  by (simp add: sequence_item_def)

lemma iterate_squeeze: "length cs \<noteq> 1 \<Longrightarrow> iterate (squeeze cs) = Inr cs"
  by (cases cs; cases "tl cs") (auto simp: squeeze_def split: list.splits)

lemma take_rows_class:
  "length cs \<le> length (rows factors) \<Longrightarrow>
   take_rows factors (filter (\<lambda>i. cs ! i = c) [0..<length cs]) = Inr (class_group factors cs c)"
  by (auto simp: take_rows_def class_group_def list_all_iff)

subsection \<open>The degeneracy scorer\<close>

text \<open>
  Claim C1. For a decomposition of rank \<open>R \<ge> 2\<close> and no mode subset, the scorer returns
  the minimum, over all ordered pairs of distinct component indices below \<open>R\<close>, of the
  factor-match score of the two components' per-mode column lists; when the pair is asked
  for, the returned pair is one of these pairs and attains the minimum.
\<close>

theorem worst_degeneracy_minimum:
  assumes "decomposition_rank fms R" and "2 \<le> R" and "modes self = None"
  shows "\<exists>pr. WorstDegeneracy_evaluate sc self fms =
                Inr (Finite (Min (pair_score sc fms ` distinct_pairs R)), pr)
           \<and> (if return_permutation self
              then \<exists>w. pr = Some w \<and> w \<in> distinct_pairs R
                     \<and> pair_score sc fms w = Min (pair_score sc fms ` distinct_pairs R)
              else pr = None)"
proof -
  obtain fm0 rest where fms: "fms = fm0 # rest"
    using assms(1) by (cases fms) (auto simp: decomposition_rank_def)
  have R: "ncols fm0 = R" using assms(1) fms by (simp add: decomposition_rank_def)
  have "list_all (\<lambda>fm. R \<le> ncols fm) fms"
    using assms(1) by (auto simp: decomposition_rank_def list_all_iff)
  then have bounds: "\<forall>pq\<in>set (permutations2 R).
      list_all (\<lambda>fm. fst pq < ncols fm \<and> snd pq < ncols fm) fms"
    by (rule permutations2_bounds)
  obtain w where run: "loop sc (Some (map int [0..<length fms])) fms
        \<lparr>min_score = PosInf, worst = None\<rparr> (permutations2 R) =
        Inr \<lparr>min_score = Finite (Min (pair_score sc fms ` set (permutations2 R))), worst = Some w\<rparr>"
    and w: "w \<in> set (permutations2 R)"
      "pair_score sc fms w = Min (pair_score sc fms ` set (permutations2 R))"
    using loop_from_inf [OF covers_range bounds permutations2_nonempty [OF assms(2)]] by blast
  have run': "loop sc (Some (map int [0..<Suc (length rest)])) (fm0 # rest)
        \<lparr>min_score = PosInf, worst = None\<rparr> (permutations2 R) =
        Inr \<lparr>min_score = Finite (Min (pair_score sc (fm0 # rest) ` distinct_pairs R)), worst = Some w\<rparr>"
    using run fms by (simp add: set_permutations2)
  have ev: "WorstDegeneracy_evaluate sc self fms =
      Inr (Finite (Min (pair_score sc fms ` distinct_pairs R)),
           if return_permutation self then Some w else None)"
    unfolding WorstDegeneracy_evaluate_def fms
    by (simp add: assms(3) local_modes_default R run' del: upt_Suc)
  show ?thesis
    using w unfolding ev by (simp add: set_permutations2)
qed

theorem worst_degeneracy_minimum_witness:
  "\<exists>pr. WorstDegeneracy_evaluate cosine_product_score \<lparr>modes = None, return_permutation = True\<rparr>
           [\<lparr>ncols = 2, rows = [[1, 0], [0, 1]]\<rparr>, \<lparr>ncols = 2, rows = [[1, 1], [1, 1]]\<rparr>] =
         Inr (Finite (Min (pair_score cosine_product_score
                [\<lparr>ncols = 2, rows = [[1, 0], [0, 1]]\<rparr>, \<lparr>ncols = 2, rows = [[1, 1], [1, 1]]\<rparr>]
                ` distinct_pairs 2)), pr)
       \<and> (\<exists>w. pr = Some w \<and> w \<in> distinct_pairs 2
             \<and> pair_score cosine_product_score
                  [\<lparr>ncols = 2, rows = [[1, 0], [0, 1]]\<rparr>, \<lparr>ncols = 2, rows = [[1, 1], [1, 1]]\<rparr>] w =
                Min (pair_score cosine_product_score
                  [\<lparr>ncols = 2, rows = [[1, 0], [0, 1]]\<rparr>, \<lparr>ncols = 2, rows = [[1, 1], [1, 1]]\<rparr>]
                  ` distinct_pairs 2))"
  using worst_degeneracy_minimum [of
      "[\<lparr>ncols = 2, rows = [[1, 0], [0, 1]]\<rparr>, \<lparr>ncols = 2, rows = [[1, 1], [1, 1]]\<rparr>]" 2
      "\<lparr>modes = None, return_permutation = True\<rparr>" cosine_product_score]
  by (simp add: decomposition_rank_def)

text \<open>
  Claim C2. The claim has a call with an explicit mode subset score the selected modes'
  columns. At modes \<open>[0]\<close> and a two-mode decomposition of rank 2 the code raises
  NameError instead: the local name \<open>modes\<close> is bound only in the branch
  \<open>self.modes is None\<close>.
\<close>

theorem explicit_modes_name_error:
  "WorstDegeneracy_evaluate cosine_product_score \<lparr>modes = Some [0], return_permutation = False\<rparr>
     [\<lparr>ncols = 2, rows = [[1, 0], [0, 1]]\<rparr>, \<lparr>ncols = 2, rows = [[1, 1], [1, 1]]\<rparr>]
     = Inl (NameError ''modes'')"
  by (simp add: WorstDegeneracy_evaluate_def local_modes_def permutations2_2 loop_body_def
      enumerate_eq_zip)

text \<open>
  Claim C3, as stated, fails. With ranks 3 and 4 the scorer returns a score; with ranks 4
  and 3 it fails with IndexError, after the pairs \<open>(0, 1)\<close> and \<open>(0, 2)\<close> have been
  scored.
\<close>

theorem shape_mismatch_counterexample:
  "WorstDegeneracy_evaluate cosine_product_score \<lparr>modes = None, return_permutation = False\<rparr>
     [\<lparr>ncols = 3, rows = [[1, 1, 1]]\<rparr>, \<lparr>ncols = 4, rows = [[1, 1, 1, 1]]\<rparr>]
     = Inr (Finite 1, None)
   \<and> WorstDegeneracy_evaluate cosine_product_score \<lparr>modes = None, return_permutation = False\<rparr>
     [\<lparr>ncols = 4, rows = [[1, 1, 1, 1]]\<rparr>, \<lparr>ncols = 3, rows = [[1, 1, 1]]\<rparr>]
     = Inl IndexError
   \<and> WorstDegeneracy_scored \<lparr>modes = None, return_permutation = False\<rparr>
     [\<lparr>ncols = 4, rows = [[1, 1, 1, 1]]\<rparr>, \<lparr>ncols = 3, rows = [[1, 1, 1]]\<rparr>]
     = [(0, 1), (0, 2)]"
  by (simp add: WorstDegeneracy_evaluate_def WorstDegeneracy_scored_def local_modes_def
      permutations2_3 permutations2_4 loop_body_def
      enumerate_eq_zip column_def cosine_product_score_def cosine_similarity_def dot_def)

text \<open>
  Claim C3, amended. The scorer compares no ranks: \<open>R\<close> is the column count of the first
  factor matrix. With no mode subset and \<open>R \<ge> 2\<close>, it returns a result when every factor
  matrix has at least \<open>R\<close> columns, and fails with the IndexError of the column extraction
  otherwise.
\<close>

theorem rank_taken_from_first_matrix:
  assumes "modes self = None" and "fms = fm0 # rest" and "2 \<le> ncols fm0"
  shows "if list_all (\<lambda>fm. ncols fm0 \<le> ncols fm) fms
         then \<exists>r. WorstDegeneracy_evaluate sc self fms = Inr r
         else WorstDegeneracy_evaluate sc self fms = Inl IndexError"
proof (cases "list_all (\<lambda>fm. ncols fm0 \<le> ncols fm) fms")
  case True
  let ?R = "ncols fm0"
  have bounds: "\<forall>pq\<in>set (permutations2 ?R).
      list_all (\<lambda>fm. fst pq < ncols fm \<and> snd pq < ncols fm) fms"
    using True by (rule permutations2_bounds)
  obtain st where run: "loop sc (Some (map int [0..<length fms])) fms
        \<lparr>min_score = PosInf, worst = None\<rparr> (permutations2 ?R) = Inr st"
    and st: "worst st \<noteq> None"
    using loop_from_inf [OF covers_range bounds permutations2_nonempty [OF assms(3)], of sc]
    by force
  have run': "loop sc (Some (map int [0..<Suc (length rest)])) (fm0 # rest)
        \<lparr>min_score = PosInf, worst = None\<rparr> (permutations2 ?R) = Inr st"
    using run assms(2) by simp
  have "\<exists>r. WorstDegeneracy_evaluate sc self fms = Inr r"
    unfolding WorstDegeneracy_evaluate_def assms(2)
    using st by (auto simp: assms(1) local_modes_default run' simp del: upt_Suc)
  then show ?thesis using True by simp
next
  case False
  let ?R = "ncols fm0"
  let ?lm = "Some (map int [0..<length fms])"
  obtain fm where fm: "fm \<in> set fms" "ncols fm < ?R"
    using False by (auto simp: list_all_iff not_le)
  define c where "c = ncols fm"
  define pq where "pq = (if c = 0 then (0, Suc 0) else (c, 0::nat))"
  have "pq \<in> distinct_pairs ?R" "fst pq = c"
    using fm(2) assms(3) by (auto simp: pq_def c_def distinct_pairs_def)
  then have mem: "pq \<in> set (permutations2 ?R)" by (simp add: set_permutations2)
  have "\<not> list_all (\<lambda>fm. fst pq < ncols fm) fms"
    using fm(1) \<open>fst pq = c\<close> by (auto simp: list_all_iff c_def)
  moreover have "\<forall>i<length fms. int (0 + i) \<in> set (map int [0..<length fms])" by simp
  ultimately have "\<exists>e. factors_p ?lm (fst pq) (enumerate 0 fms) = Inl e"
    using factors_p_short_matrix by blast
  then obtain e where "loop sc ?lm fms \<lparr>min_score = PosInf, worst = None\<rparr> (permutations2 ?R) = Inl e"
    using loop_stops_at_failure [OF mem] by blast
  moreover from this have "e = IndexError" by (rule loop_error_kind)
  ultimately have run': "loop sc (Some (map int [0..<Suc (length rest)])) (fm0 # rest)
        \<lparr>min_score = PosInf, worst = None\<rparr> (permutations2 ?R) = Inl IndexError"
    using assms(2) by simp
  have "WorstDegeneracy_evaluate sc self fms = Inl IndexError"
    unfolding WorstDegeneracy_evaluate_def assms(2)
    by (simp add: assms(1) local_modes_default run' del: upt_Suc)
  then show ?thesis using False by simp
qed

theorem rank_taken_from_first_matrix_witness:
  "(\<exists>r. WorstDegeneracy_evaluate cosine_product_score \<lparr>modes = None, return_permutation = False\<rparr>
          [\<lparr>ncols = 3, rows = [[1, 1, 1]]\<rparr>, \<lparr>ncols = 4, rows = [[1, 1, 1, 1]]\<rparr>] = Inr r)
   \<and> WorstDegeneracy_evaluate cosine_product_score \<lparr>modes = None, return_permutation = False\<rparr>
          [\<lparr>ncols = 4, rows = [[1, 1, 1, 1]]\<rparr>, \<lparr>ncols = 3, rows = [[1, 1, 1]]\<rparr>] = Inl IndexError"
  using rank_taken_from_first_matrix [of "\<lparr>modes = None, return_permutation = False\<rparr>"
      "[\<lparr>ncols = 3, rows = [[1, 1, 1]]\<rparr>, \<lparr>ncols = 4, rows = [[1, 1, 1, 1]]\<rparr>]"
      "\<lparr>ncols = 3, rows = [[1, 1, 1]]\<rparr>" "[\<lparr>ncols = 4, rows = [[1, 1, 1, 1]]\<rparr>]"
      cosine_product_score]
    rank_taken_from_first_matrix [of "\<lparr>modes = None, return_permutation = False\<rparr>"
      "[\<lparr>ncols = 4, rows = [[1, 1, 1, 1]]\<rparr>, \<lparr>ncols = 3, rows = [[1, 1, 1]]\<rparr>]"
      "\<lparr>ncols = 4, rows = [[1, 1, 1, 1]]\<rparr>" "[\<lparr>ncols = 3, rows = [[1, 1, 1]]\<rparr>]"
      cosine_product_score]
  by simp




text \<open>
  Claim C5. The claim has one behaviour for rank below 2 under both values of the
  return-pair flag. At a single factor matrix of rank 1 the code returns \<open>np.inf\<close> without
  the flag and raises on the unbound \<open>worst_p1\<close> with it.
\<close>

theorem rank_one_depends_on_flag:
  "WorstDegeneracy_evaluate cosine_product_score \<lparr>modes = None, return_permutation = False\<rparr>
     [\<lparr>ncols = 1, rows = [[1], [2]]\<rparr>] = Inr (PosInf, None)
   \<and> WorstDegeneracy_evaluate cosine_product_score \<lparr>modes = None, return_permutation = True\<rparr>
     [\<lparr>ncols = 1, rows = [[1], [2]]\<rparr>] = Inl (NameError ''worst_p1'')"
  by (simp add: WorstDegeneracy_evaluate_def local_modes_def permutations2_1)

text \<open>
  Claim C6. The claim has every decomposition of rank \<open>R \<ge> 2\<close> get exactly
  \<open>R * (R - 1)\<close> pairs scored. At the mode subset \<open>[0, 1]\<close> and a two-mode decomposition of
  rank 2 the loop has two pairs to visit, its first iteration raises NameError in the
  first comprehension, before the score call, and so does the evaluator: no pair is scored.
\<close>

theorem explicit_subset_scores_no_pair:
  "permutations2 2 = [(0, 1), (1, 0)]
   \<and> loop_body cosine_product_score (local_modes (Some [0, 1]) 2)
       [\<lparr>ncols = 2, rows = [[1, 0], [0, 1]]\<rparr>, \<lparr>ncols = 2, rows = [[1, 1], [1, 1]]\<rparr>]
       \<lparr>min_score = PosInf, worst = None\<rparr> 0 1
     = Inl (NameError ''modes'')
   \<and> WorstDegeneracy_evaluate cosine_product_score \<lparr>modes = Some [0, 1], return_permutation = False\<rparr>
       [\<lparr>ncols = 2, rows = [[1, 0], [0, 1]]\<rparr>, \<lparr>ncols = 2, rows = [[1, 1], [1, 1]]\<rparr>]
     = Inl (NameError ''modes'')
   \<and> WorstDegeneracy_scored \<lparr>modes = Some [0, 1], return_permutation = False\<rparr>
       [\<lparr>ncols = 2, rows = [[1, 0], [0, 1]]\<rparr>, \<lparr>ncols = 2, rows = [[1, 1], [1, 1]]\<rparr>]
     = []"
  by (simp add: WorstDegeneracy_evaluate_def WorstDegeneracy_scored_def local_modes_def
      permutations2_2 loop_body_def enumerate_eq_zip)

text \<open>
  Claim C7. The claim has the mode subset of all modes in natural order and the same modes
  shuffled yield the same minimum score. At a two-mode decomposition of rank 2 the default
  call yields score 0, and the calls with \<open>[0, 1]\<close> and with \<open>[1, 0]\<close> yield no score: both
  raise NameError.
\<close>

theorem shuffled_modes_no_score:
  "WorstDegeneracy_evaluate cosine_product_score \<lparr>modes = None, return_permutation = False\<rparr>
     [\<lparr>ncols = 2, rows = [[1, 0], [0, 1]]\<rparr>, \<lparr>ncols = 2, rows = [[1, 1], [1, 1]]\<rparr>]
     = Inr (Finite 0, None)
   \<and> WorstDegeneracy_evaluate cosine_product_score \<lparr>modes = Some [0, 1], return_permutation = False\<rparr>
     [\<lparr>ncols = 2, rows = [[1, 0], [0, 1]]\<rparr>, \<lparr>ncols = 2, rows = [[1, 1], [1, 1]]\<rparr>]
     = Inl (NameError ''modes'')
   \<and> WorstDegeneracy_evaluate cosine_product_score \<lparr>modes = Some [1, 0], return_permutation = False\<rparr>
     [\<lparr>ncols = 2, rows = [[1, 0], [0, 1]]\<rparr>, \<lparr>ncols = 2, rows = [[1, 1], [1, 1]]\<rparr>]
     = Inl (NameError ''modes'')"
  by (simp add: WorstDegeneracy_evaluate_def local_modes_def permutations2_2 loop_body_def
      enumerate_eq_zip column_def cosine_product_score_def cosine_similarity_def dot_def)

text \<open>
  Claim C8. Rank 2, two modes, mode-0 columns \<open>[1, 0]\<close> and \<open>[0, 1]\<close>, mode-1 columns both
  \<open>[1, 1]\<close>, the score being the product of the per-mode cosine similarities: the
  scorer returns worst score 0, and the reported pair is \<open>(0, 1)\<close>.
\<close>

theorem known_input_scenario:
  "WorstDegeneracy_evaluate cosine_product_score \<lparr>modes = None, return_permutation = True\<rparr>
     [\<lparr>ncols = 2, rows = [[1, 0], [0, 1]]\<rparr>, \<lparr>ncols = 2, rows = [[1, 1], [1, 1]]\<rparr>]
     = Inr (Finite 0, Some (0, 1))
   \<and> WorstDegeneracy_evaluate cosine_product_score \<lparr>modes = None, return_permutation = False\<rparr>
     [\<lparr>ncols = 2, rows = [[1, 0], [0, 1]]\<rparr>, \<lparr>ncols = 2, rows = [[1, 1], [1, 1]]\<rparr>]
     = Inr (Finite 0, None)"
  by (simp add: WorstDegeneracy_evaluate_def local_modes_def permutations2_2 loop_body_def
      enumerate_eq_zip column_def cosine_product_score_def cosine_similarity_def dot_def)

text \<open>
  Claim C9. Two calls on the same evaluator object (the same mode subset and flag) with
  the same decomposition produce identical results, the same score or error and, when
  asked for, the same pair, as soon as the external score function answers alike in both
  calls on the column lists of the pairs the loop visits: the evaluator object cannot
  change between the calls, and the result depends on nothing else.
\<close>

theorem repeated_call_same_result:
  assumes "\<forall>pq\<in>set (permutations2 (ncols (hd fms))). \<forall>f1 f2.
      factors_p (local_modes (modes self) (length fms)) (fst pq) (enumerate 0 fms) = Inr f1 \<and>
      factors_p (local_modes (modes self) (length fms)) (snd pq) (enumerate 0 fms) = Inr f2
      \<longrightarrow> sc f1 f2 = sc' f1 f2"
  shows "fst (WorstDegeneracy_call sc' (snd (WorstDegeneracy_call sc self fms)) fms) =
         fst (WorstDegeneracy_call sc self fms)"
proof (cases fms)
  case Nil
  then show ?thesis by (simp add: WorstDegeneracy_call_def WorstDegeneracy_evaluate_def)
next
  case (Cons fm0 rest)
  have "loop sc (local_modes (modes self) (length fms)) fms \<lparr>min_score = PosInf, worst = None\<rparr>
          (permutations2 (ncols fm0)) =
        loop sc' (local_modes (modes self) (length fms)) fms \<lparr>min_score = PosInf, worst = None\<rparr>
          (permutations2 (ncols fm0))"
    by (rule loop_same_scores) (use assms Cons in simp)
  then show ?thesis
    using Cons by (simp add: WorstDegeneracy_call_def WorstDegeneracy_evaluate_def)
qed

theorem repeated_call_same_result_witness:
  "fst (WorstDegeneracy_call (\<lambda>us vs. if length us = 2 then cosine_product_score us vs else 5)
          (snd (WorstDegeneracy_call cosine_product_score
                  \<lparr>modes = None, return_permutation = True\<rparr>
                  [\<lparr>ncols = 2, rows = [[1, 0], [0, 1]]\<rparr>, \<lparr>ncols = 2, rows = [[1, 1], [1, 1]]\<rparr>]))
          [\<lparr>ncols = 2, rows = [[1, 0], [0, 1]]\<rparr>, \<lparr>ncols = 2, rows = [[1, 1], [1, 1]]\<rparr>]) =
   fst (WorstDegeneracy_call cosine_product_score \<lparr>modes = None, return_permutation = True\<rparr>
          [\<lparr>ncols = 2, rows = [[1, 0], [0, 1]]\<rparr>, \<lparr>ncols = 2, rows = [[1, 1], [1, 1]]\<rparr>])"
  using repeated_call_same_result [of
      "[\<lparr>ncols = 2, rows = [[1, 0], [0, 1]]\<rparr>, \<lparr>ncols = 2, rows = [[1, 1], [1, 1]]\<rparr>]"
      "\<lparr>modes = None, return_permutation = True\<rparr>" cosine_product_score
      "\<lambda>us vs. if length us = 2 then cosine_product_score us vs else 5"]
  by (auto simp: permutations2_2 local_modes_def enumerate_eq_zip column_def)

subsection \<open>The p-value evaluator\<close>

text \<open>
  Claim C10, as stated, fails. A class vector of a single entry has one distinct value,
  not two, and the evaluator fails with TypeError, not with an assertion failure:
  \<open>squeeze()\<close> makes the vector a zero-dimensional array, which \<open>set(classes)\<close> cannot
  iterate.
\<close>

theorem pvalue_assertion_counterexample:
  "PValue_evaluate (\<lambda>g0 g1. map (\<lambda>x. PVal 1) (hd g0)) remdups 0
     [\<lparr>ncols = 2, rows = [[1, 2]]\<rparr>] [0 :: nat] = Inl TypeError"
  by (simp add: PValue_evaluate_def sequence_item_def squeeze_def)

text \<open>
  Claim C10, amended. Where the mode index selects a factor matrix: a class vector of a
  single entry fails with TypeError; any other class vector with a number of distinct
  labels other than two fails with AssertionError, whatever the t-test is; with exactly
  two labels, every class index a row of the factor matrix and the t-test returning at
  least one p-value, all of them numbers (no NaN), the evaluator returns the minimum over
  the components of the p-values between the two class groups.
\<close>

theorem pvalue_two_classes:
  assumes "sequence_item fms mode = Inr factors"
  shows "(length cs = 1 \<longrightarrow> PValue_evaluate ttest set_order mode fms cs = Inl TypeError)
       \<and> (length cs \<noteq> 1 \<and> length (remdups cs) \<noteq> 2 \<longrightarrow>
            PValue_evaluate ttest set_order mode fms cs = Inl AssertionError)
       \<and> (\<forall>a b rs. length (remdups cs) = 2 \<and> set_order cs = [a, b] \<and> set cs = {a, b}
                  \<and> length cs \<le> length (rows factors)
                  \<and> ttest (class_group factors cs a) (class_group factors cs b) = map PVal rs
                  \<and> rs \<noteq> []
              \<longrightarrow> PValue_evaluate ttest set_order mode fms cs = Inr (PVal (Min (set rs))))"
proof (intro conjI allI impI)
  assume "length cs = 1"
  then obtain c where "cs = [c]" by (cases cs) auto
  then show "PValue_evaluate ttest set_order mode fms cs = Inl TypeError"
    by (simp add: PValue_evaluate_def assms squeeze_def)
next
  assume "length cs \<noteq> 1 \<and> length (remdups cs) \<noteq> 2"
  then show "PValue_evaluate ttest set_order mode fms cs = Inl AssertionError"
    by (simp add: PValue_evaluate_def assms iterate_squeeze)
next
  fix a b rs
  assume h: "length (remdups cs) = 2 \<and> set_order cs = [a, b] \<and> set cs = {a, b}
      \<and> length cs \<le> length (rows factors)
      \<and> ttest (class_group factors cs a) (class_group factors cs b) = map PVal rs \<and> rs \<noteq> []"
  have "length (remdups cs) \<le> length cs" by (rule length_remdups_leq)
  then have vec: "length cs \<noteq> 1" using h by simp
  have bound: "length cs \<le> length (rows factors)" using h by simp
  show "PValue_evaluate ttest set_order mode fms cs = Inr (PVal (Min (set rs)))"
    using h
    by (simp add: PValue_evaluate_def assms iterate_squeeze [OF vec] Let_def
        sequence_item_0 sequence_item_1 take_rows_class [OF bound] py_min_numbers)
qed

text \<open>
  In the first input of the witness the two class groups have two rows each and the same
  mean in both components, so that the t statistic is 0 and both p-values are 1.
\<close>

theorem pvalue_two_classes_witness:
  "PValue_evaluate (\<lambda>g0 g1. map (\<lambda>x. PVal 1) (hd g0)) remdups 0
     [\<lparr>ncols = 2, rows = [[1, 2], [0, 1], [3, 4], [4, 5]]\<rparr>] [0, 1, 0, 1 :: nat] = Inr (PVal 1)
   \<and> PValue_evaluate (\<lambda>g0 g1. map (\<lambda>x. PVal 1) (hd g0)) remdups 0
     [\<lparr>ncols = 2, rows = [[1, 2], [0, 1], [3, 4], [4, 5]]\<rparr>] [0, 1, 2, 0 :: nat] = Inl AssertionError
   \<and> PValue_evaluate (\<lambda>g0 g1. map (\<lambda>x. PVal 1) (hd g0)) remdups 0
     [\<lparr>ncols = 2, rows = [[1, 2], [0, 1], [3, 4], [4, 5]]\<rparr>] [7 :: nat] = Inl TypeError"
proof -
  have m: "sequence_item [\<lparr>ncols = 2, rows = [[1, 2], [0, 1], [3, 4], [4, 5]]\<rparr>] 0 =
      Inr \<lparr>ncols = 2, rows = [[1, 2], [0, 1], [3, 4], [4, 5]]\<rparr>"
    by (simp add: sequence_item_def)
  have two: "PValue_evaluate (\<lambda>g0 g1. map (\<lambda>x. PVal 1) (hd g0)) remdups 0
     [\<lparr>ncols = 2, rows = [[1, 2], [0, 1], [3, 4], [4, 5]]\<rparr>] [0, 1, 0, 1 :: nat] = Inr (PVal 1)"
    using pvalue_two_classes [OF m, where cs = "[0, 1, 0, 1 :: nat]" and set_order = remdups
        and ttest = "\<lambda>g0 g1. map (\<lambda>x. PVal 1) (hd g0)",
        THEN conjunct2, THEN conjunct2, rule_format, of 0 1 "[1, 1]"]
    by (simp add: class_group_def upt_rec insert_commute)
  have three: "PValue_evaluate (\<lambda>g0 g1. map (\<lambda>x. PVal 1) (hd g0)) remdups 0
     [\<lparr>ncols = 2, rows = [[1, 2], [0, 1], [3, 4], [4, 5]]\<rparr>] [0, 1, 2, 0 :: nat] = Inl AssertionError"
    using pvalue_two_classes [OF m, where cs = "[0, 1, 2, 0 :: nat]" and set_order = remdups
        and ttest = "\<lambda>g0 g1. map (\<lambda>x. PVal 1) (hd g0)"]
    by simp
  have one: "PValue_evaluate (\<lambda>g0 g1. map (\<lambda>x. PVal 1) (hd g0)) remdups 0
     [\<lparr>ncols = 2, rows = [[1, 2], [0, 1], [3, 4], [4, 5]]\<rparr>] [7 :: nat] = Inl TypeError"
    using pvalue_two_classes [OF m, where cs = "[7 :: nat]" and set_order = remdups
        and ttest = "\<lambda>g0 g1. map (\<lambda>x. PVal 1) (hd g0)"]
    by simp
  show ?thesis using two three one by simp
qed

end
